theory Spec2Isabelle
  imports Complex_Main "HOL-Library.Word"
begin

section \<open>The geometry types used by \<^verbatim>\<open>experiments/g2o-test.cpp\<close>\<close>

text \<open>
  Modelled from the spec: the pose type \<^verbatim>\<open>gtsam::Pose3\<close> with its points, rotations
  and their operations belongs to the external geometry library; the repository only
  calls it, and none of it is in the source tree. The spec describes a pose as a rotation
  and a translation, an element of the rigid-transform group, with
  \<^verbatim>\<open>between(A, B) = A\<^sup>-\<^sup>1 * B\<close>. The definitions of this section write that group
  out on a rotation matrix and a translation vector, named after the library's functions.
  A C++ \<^verbatim>\<open>double\<close> is idealised as a \<^typ>\<open>real\<close>: rounding is not part of the
  model.
\<close>

text \<open>\<^verbatim>\<open>Point3\<close> / \<^verbatim>\<open>Vector3\<close>: three doubles.\<close>

datatype Point3 = Point3 real real real

text \<open>\<^verbatim>\<open>Rot3\<close>: a 3x3 matrix, row by row.\<close>

datatype Rot3 = Rot3 real real real  real real real  real real real

text \<open>\<^verbatim>\<open>Pose3\<close>: rotation \<^verbatim>\<open>R_\<close> and translation \<^verbatim>\<open>t_\<close>.\<close>

datatype Pose3 = Pose3 (rotation: Rot3) (translation: Point3)

fun Point3_plus :: "Point3 \<Rightarrow> Point3 \<Rightarrow> Point3" where
  "Point3_plus (Point3 a b c) (Point3 d e f) = Point3 (a + d) (b + e) (c + f)"

fun Point3_uminus :: "Point3 \<Rightarrow> Point3" where
  "Point3_uminus (Point3 a b c) = Point3 (- a) (- b) (- c)"

text \<open>Eigen's \<^verbatim>\<open>.norm()\<close>: the Euclidean norm.\<close>

fun Vector3_norm :: "Point3 \<Rightarrow> real" where
  "Vector3_norm (Point3 a b c) = sqrt (a * a + b * b + c * c)"

definition Rot3_identity :: Rot3 where
  "Rot3_identity = Rot3 1 0 0  0 1 0  0 0 1"

text \<open>\<^verbatim>\<open>Rot3::operator*\<close>: the matrix product.\<close>

fun Rot3_compose :: "Rot3 \<Rightarrow> Rot3 \<Rightarrow> Rot3" where
  "Rot3_compose (Rot3 a00 a01 a02 a10 a11 a12 a20 a21 a22)
                (Rot3 b00 b01 b02 b10 b11 b12 b20 b21 b22) =
     Rot3 (a00 * b00 + a01 * b10 + a02 * b20) (a00 * b01 + a01 * b11 + a02 * b21)
          (a00 * b02 + a01 * b12 + a02 * b22)
          (a10 * b00 + a11 * b10 + a12 * b20) (a10 * b01 + a11 * b11 + a12 * b21)
          (a10 * b02 + a11 * b12 + a12 * b22)
          (a20 * b00 + a21 * b10 + a22 * b20) (a20 * b01 + a21 * b11 + a22 * b21)
          (a20 * b02 + a21 * b12 + a22 * b22)"

text \<open>\<^verbatim>\<open>Rot3::inverse\<close>: the transpose.\<close>

fun Rot3_inverse :: "Rot3 \<Rightarrow> Rot3" where
  "Rot3_inverse (Rot3 a00 a01 a02 a10 a11 a12 a20 a21 a22) =
     Rot3 a00 a10 a20  a01 a11 a21  a02 a12 a22"

text \<open>\<^verbatim>\<open>Rot3::operator*(Point3)\<close>: the matrix applied to a vector.\<close>

fun Rot3_rotate :: "Rot3 \<Rightarrow> Point3 \<Rightarrow> Point3" where
  "Rot3_rotate (Rot3 a00 a01 a02 a10 a11 a12 a20 a21 a22) (Point3 x y z) =
     Point3 (a00 * x + a01 * y + a02 * z) (a10 * x + a11 * y + a12 * z)
            (a20 * x + a21 * y + a22 * z)"

fun Rot3_det :: "Rot3 \<Rightarrow> real" where
  "Rot3_det (Rot3 a00 a01 a02 a10 a11 a12 a20 a21 a22) =
     a00 * (a11 * a22 - a12 * a21) - a01 * (a10 * a22 - a12 * a20)
       + a02 * (a10 * a21 - a11 * a20)"

text \<open>
  The class invariant of \<^verbatim>\<open>Rot3\<close>: the matrix is orthogonal with determinant 1. The
  loader builds every rotation from a unit quaternion, so every pose the driver reads
  satisfies it (in exact arithmetic).
\<close>

definition is_rotation :: "Rot3 \<Rightarrow> bool" where
  "is_rotation R \<longleftrightarrow>
     Rot3_compose (Rot3_inverse R) R = Rot3_identity \<and>
     Rot3_compose R (Rot3_inverse R) = Rot3_identity \<and>
     Rot3_det R = 1"

text \<open>The elementary rotations \<^verbatim>\<open>Rot3::Rx\<close>, \<^verbatim>\<open>Rot3::Ry\<close>, \<^verbatim>\<open>Rot3::Rz\<close>.\<close>

definition Rx :: "real \<Rightarrow> Rot3" where
  "Rx t = (let st = sin t; ct = cos t in Rot3 1 0 0  0 ct (- st)  0 st ct)"

definition Ry :: "real \<Rightarrow> Rot3" where
  "Ry t = (let st = sin t; ct = cos t in Rot3 ct 0 st  0 1 0  (- st) 0 ct)"

definition Rz :: "real \<Rightarrow> Rot3" where
  "Rz t = (let st = sin t; ct = cos t in Rot3 ct (- st) 0  st ct 0  0 0 1)"

text \<open>The C library's \<^verbatim>\<open>atan2(y, x)\<close> on reals, by quadrant.\<close>

definition atan2 :: "real \<Rightarrow> real \<Rightarrow> real" where
  "atan2 y x =
     (if 0 < x then arctan (y / x)
      else if x < 0 then (if 0 \<le> y then arctan (y / x) + pi else arctan (y / x) - pi)
      else if 0 < y then pi / 2
      else if y < 0 then - (pi / 2)
      else 0)"

text \<open>Matrix entries \<^verbatim>\<open>A(1,0)\<close>, \<^verbatim>\<open>A(1,1)\<close>, \<^verbatim>\<open>A(2,0)\<close>, \<^verbatim>\<open>A(2,1)\<close>, \<^verbatim>\<open>A(2,2)\<close>.\<close>

fun m10 :: "Rot3 \<Rightarrow> real" where
  "m10 (Rot3 a00 a01 a02 a10 a11 a12 a20 a21 a22) = a10"

fun m11 :: "Rot3 \<Rightarrow> real" where
  "m11 (Rot3 a00 a01 a02 a10 a11 a12 a20 a21 a22) = a11"

fun m20 :: "Rot3 \<Rightarrow> real" where
  "m20 (Rot3 a00 a01 a02 a10 a11 a12 a20 a21 a22) = a20"

fun m21 :: "Rot3 \<Rightarrow> real" where
  "m21 (Rot3 a00 a01 a02 a10 a11 a12 a20 a21 a22) = a21"

fun m22 :: "Rot3 \<Rightarrow> real" where
  "m22 (Rot3 a00 a01 a02 a10 a11 a12 a20 a21 a22) = a22"

text \<open>
  Modelled from the spec: \<^verbatim>\<open>Rot3::xyz()\<close> is a function of the external library and is
  not in the repository. The spec calls the rotation residual the norm of an Euler-angle
  vector; this is the library's roll, pitch, yaw extraction (its RQ decomposition of the
  rotation matrix).
\<close>

definition xyz :: "Rot3 \<Rightarrow> Point3" where
  "xyz A =
     (let x = - atan2 (- m21 A) (m22 A);
          Qx = Rx (- x);
          B = Rot3_compose A Qx;
          y = - atan2 (m20 B) (m22 B);
          Qy = Ry (- y);
          C = Rot3_compose B Qy;
          z = - atan2 (- m10 C) (m11 C)
      in Point3 x y z)"

definition Pose3_identity :: Pose3 where
  "Pose3_identity = Pose3 Rot3_identity (Point3 0 0 0)"

text \<open>
  Modelled from the spec: \<^verbatim>\<open>Pose3::inverse\<close>, \<^verbatim>\<open>Pose3::operator*\<close> and
  \<^verbatim>\<open>Pose3::between\<close> are functions of the external library and are not in the
  repository. The spec gives \<^verbatim>\<open>between(A, B)\<close> as the relative transform
  \<^verbatim>\<open>A\<^sup>-\<^sup>1 * B\<close> of the rigid-transform group.
\<close>

fun Pose3_inverse :: "Pose3 \<Rightarrow> Pose3" where
  "Pose3_inverse (Pose3 R t) =
     (let Rt = Rot3_inverse R in Pose3 Rt (Rot3_rotate Rt (Point3_uminus t)))"

fun Pose3_compose :: "Pose3 \<Rightarrow> Pose3 \<Rightarrow> Pose3" where
  "Pose3_compose (Pose3 R1 t1) (Pose3 R2 t2) =
     Pose3 (Rot3_compose R1 R2) (Point3_plus t1 (Rot3_rotate R1 t2))"

definition between :: "Pose3 \<Rightarrow> Pose3 \<Rightarrow> Pose3" where
  "between p g = Pose3_compose (Pose3_inverse p) g"

section \<open>The graph, the estimates and the library calls of the driver\<close>

text \<open>\<^verbatim>\<open>gtsam::Key\<close> is a 64-bit unsigned integer.\<close>

type_synonym Key = "64 word"

text \<open>
  \<^verbatim>\<open>gtsam::Values\<close>, as the loader fills it when \<^verbatim>\<open>is3D\<close> is true: a map from
  keys to 3D poses.
\<close>

type_synonym Values = "Key \<rightharpoonup> Pose3"

text \<open>
  The C++ exceptions that can leave a library call. Nothing in \<^verbatim>\<open>main\<close> catches
  one, so a raised exception ends the program.
\<close>

datatype exn = ValuesKeyDoesNotExist Key | LibraryException string

text \<open>
  Modelled from the spec: \<^verbatim>\<open>Values::at<Pose3>\<close> is a function of the external library
  and is not in the repository. The spec says a lookup of an absent key fails with a
  missing-key error; the library's exception for it is \<^verbatim>\<open>ValuesKeyDoesNotExist\<close>.
\<close>

definition Values_at :: "Values \<Rightarrow> Key \<Rightarrow> exn + Pose3" where
  "Values_at vals j = (case vals j of None \<Rightarrow> Inl (ValuesKeyDoesNotExist j) | Some p \<Rightarrow> Inr p)"

text \<open>
  A factor of the graph, as the dynamic cast of line 26 sees it: a
  \<^verbatim>\<open>BetweenFactor<Pose3>\<close> with its two keys and its measured relative pose, or any
  other kind of factor. The type parameter stands for what the driver never reads (the
  noise model, the contents of other factors).
\<close>

datatype 'a NonlinearFactor =
    BetweenFactorPose3 (key1: Key) (key2: Key) (measured: Pose3) 'a
  | OtherFactor 'a

record LevenbergMarquardtParams =
  errorTol :: real
  maxIterations :: int

text \<open>
  The library calls whose results the driver only prints or passes on. They are parameters
  of the model: the loader \<^verbatim>\<open>readG2o\<close>, the graph's \<^verbatim>\<open>error\<close>, a factor's
  \<^verbatim>\<open>error\<close> and the Levenberg-Marquardt optimizer. Each may return or raise.
\<close>

record 'a library =
  readG2o :: "string \<Rightarrow> bool \<Rightarrow> exn + ('a NonlinearFactor list \<times> Values)"
  graph_error :: "'a NonlinearFactor list \<Rightarrow> Values \<Rightarrow> exn + real"
  factor_error :: "'a NonlinearFactor \<Rightarrow> Values \<Rightarrow> exn + real"
  optimize :: "LevenbergMarquardtParams \<Rightarrow> 'a NonlinearFactor list \<Rightarrow> Values \<Rightarrow> exn + Values"

section \<open>The driver\<close>

text \<open>What the driver writes to \<^verbatim>\<open>std::cout\<close>, one constructor per output statement.\<close>

datatype line =
    InitialError real
  | Separator
  | FactorError nat real
  | NodeLine Key Key
  | TranslationDifference real real
  | TranslationDifferenceV2 real real
  | NotBetweenFactor nat
  | FinalError real

text \<open>
  The local variables \<^verbatim>\<open>graph\<close> and \<^verbatim>\<open>initial\<close> of \<^verbatim>\<open>main\<close> and the text
  written so far. The model threads all three through the loop.
\<close>

record 'a main_state =
  graph :: "'a NonlinearFactor list"
  initial :: Values
  cout :: "line list"

definition emit :: "line list \<Rightarrow> 'a main_state \<Rightarrow> 'a main_state" where
  "emit ls s = s\<lparr>cout := cout s @ ls\<rparr>"

text \<open>Lines 44 and 45: the two norms printed for a difference pose.\<close>

definition residual_pair :: "Pose3 \<Rightarrow> real \<times> real" where
  "residual_pair d = (Vector3_norm (translation d), Vector3_norm (xyz (rotation d)))"

text \<open>
  Lines 34 to 41 with the norms of lines 44 and 45: the residual computation the spec
  names \<^verbatim>\<open>computeResidual\<close>. The lookup of \<^verbatim>\<open>key1\<close> comes first.
\<close>

definition computeResidual ::
  "Pose3 \<Rightarrow> Key \<Rightarrow> Key \<Rightarrow> Values \<Rightarrow> exn + ((real \<times> real) \<times> (real \<times> real))" where
  "computeResidual m k1 k2 vals =
     (case Values_at vals k1 of
        Inl ex \<Rightarrow> Inl ex
      | Inr pose1 \<Rightarrow>
          (case Values_at vals k2 of
             Inl ex \<Rightarrow> Inl ex
           | Inr pose2 \<Rightarrow>
               (let predicted = between pose1 pose2;
                    predicted_v2 = between pose2 pose1;
                    diff = between m predicted;
                    diff_v2 = between m predicted_v2
                in Inr (residual_pair diff, residual_pair diff_v2))))"

text \<open>
  Lines 21 to 48: the body of the loop for index \<open>i\<close>. The result is the exception that
  left the body, if any, and the state at that point.
\<close>

definition body :: "'a library \<Rightarrow> nat \<Rightarrow> 'a main_state \<Rightarrow> exn option \<times> 'a main_state" where
  "body lib i s =
     (let factor = graph s ! i in
      case factor_error lib factor (initial s) of
        Inl ex \<Rightarrow> (Some ex, s)
      | Inr e \<Rightarrow>
          (let s1 = emit [Separator, FactorError i e] s in
           case factor of
             BetweenFactorPose3 k1 k2 m n \<Rightarrow>
               (case computeResidual m k1 k2 (initial s1) of
                  Inl ex \<Rightarrow> (Some ex, s1)
                | Inr (fwd, bwd) \<Rightarrow>
                    (None, emit [NodeLine k1 k2,
                                 TranslationDifference (fst fwd) (snd fwd),
                                 TranslationDifferenceV2 (fst bwd) (snd bwd)] s1))
           | OtherFactor n \<Rightarrow> (None, emit [NotBetweenFactor i] s1)))"

lemma body_graph: "graph (snd (body lib i s)) = graph s"
  by (simp add: body_def emit_def Let_def split: sum.splits NonlinearFactor.splits prod.splits)

text \<open>Lines 20 to 49: \<^verbatim>\<open>for (size_t i = 0; i < graph.size(); i++)\<close>, from index \<open>i\<close> on.\<close>

function loop :: "'a library \<Rightarrow> nat \<Rightarrow> 'a main_state \<Rightarrow> exn option \<times> 'a main_state" where
  "loop lib i s =
     (if i < length (graph s) then
        (case body lib i s of
           (Some ex, s') \<Rightarrow> (Some ex, s')
         | (None, s') \<Rightarrow> loop lib (i + 1) s')
      else (None, s))"
  by pat_completeness auto
termination
  apply (relation "measure (\<lambda>(lib, i, s). length (graph s) - i)")
   apply simp
  subgoal for lib i s x y
    using body_graph [of lib i s] by (cases "body lib i s") auto
  done

declare loop.simps [simp del]

text \<open>Line 12: the path is \<^verbatim>\<open>argv[1]\<close> when \<^verbatim>\<open>argc > 1\<close>, else the default.\<close>

definition file_path :: "string list \<Rightarrow> string" where
  "file_path argv = (if length argv > 1 then argv ! 1 else ''data/2d/2d-1.g2o'')"

text \<open>Line 10.\<close>

definition is3D :: bool where
  "is3D = True"

text \<open>How the program ends: \<^verbatim>\<open>return 0\<close>, or an exception that nothing catches.\<close>

datatype outcome = Returned int | Terminated exn

text \<open>
  The whole of \<^verbatim>\<open>main\<close>; \<open>argv\<close> is the argument vector with the program name
  first, so \<^verbatim>\<open>argc\<close> is its length. The result is how the program ends and what it
  has written.
\<close>

definition main :: "'a library \<Rightarrow> string list \<Rightarrow> outcome \<times> line list" where
  "main lib argv =
     (case readG2o lib (file_path argv) is3D of
        Inl ex \<Rightarrow> (Terminated ex, [])
      | Inr (g, v) \<Rightarrow>
          (let s0 = \<lparr>graph = g, initial = v, cout = []\<rparr> in
           case graph_error lib (graph s0) (initial s0) of
             Inl ex \<Rightarrow> (Terminated ex, cout s0)
           | Inr e0 \<Rightarrow>
               (case loop lib 0 (emit [InitialError e0] s0) of
                  (Some ex, s1) \<Rightarrow> (Terminated ex, cout s1)
                | (None, s1) \<Rightarrow>
                    (let params = \<lparr>errorTol = 1 / 10 ^ 8, maxIterations = 1000\<rparr> in
                     case optimize lib params (graph s1) (initial s1) of
                       Inl ex \<Rightarrow> (Terminated ex, cout s1)
                     | Inr result \<Rightarrow>
                         (case graph_error lib (graph s1) result of
                            Inl ex \<Rightarrow> (Terminated ex, cout s1)
                          | Inr e1 \<Rightarrow> (Returned 0, cout (emit [FinalError e1] s1)))))))"

section \<open>Reading the output\<close>

text \<open>The indices of the factors the loop has visited: one per "Factor i error" line.\<close>

fun visited :: "line list \<Rightarrow> nat list" where
  "visited [] = []"
| "visited (FactorError i e # ls) = i # visited ls"
| "visited (l # ls) = visited ls"

text \<open>The indices reported as not a \<^verbatim>\<open>BetweenFactor<gtsam::Pose3>\<close>.\<close>

fun skipped :: "line list \<Rightarrow> nat list" where
  "skipped [] = []"
| "skipped (NotBetweenFactor i # ls) = i # skipped ls"
| "skipped (l # ls) = skipped ls"

text \<open>The key pairs of the constraints whose residuals were printed.\<close>

fun evaluated :: "line list \<Rightarrow> (Key \<times> Key) list" where
  "evaluated [] = []"
| "evaluated (NodeLine k1 k2 # ls) = (k1, k2) # evaluated ls"
| "evaluated (l # ls) = evaluated ls"

fun is_between :: "'a NonlinearFactor \<Rightarrow> bool" where
  "is_between (BetweenFactorPose3 k1 k2 m n) = True"
| "is_between (OtherFactor n) = False"

section \<open>Example inputs\<close>

text \<open>
  Two ways the library's \<^verbatim>\<open>error\<close> call can behave: it returns a number whatever
  the estimates are, or it looks the keys of a between factor up first, as the residual
  computation does, and raises when one is absent.
\<close>

definition lenient_error :: "'a NonlinearFactor \<Rightarrow> Values \<Rightarrow> exn + real" where
  "lenient_error f vals = Inr 0"

definition checking_error :: "'a NonlinearFactor \<Rightarrow> Values \<Rightarrow> exn + real" where
  "checking_error f vals =
     (case f of
        BetweenFactorPose3 k1 k2 m n \<Rightarrow>
          (case computeResidual m k1 k2 vals of Inl ex \<Rightarrow> Inl ex | Inr r \<Rightarrow> Inr 0)
      | OtherFactor n \<Rightarrow> Inr 0)"

text \<open>The error of a graph as the sum of its factors' errors, from the first factor on.\<close>

fun total_error ::
  "('a NonlinearFactor \<Rightarrow> Values \<Rightarrow> exn + real) \<Rightarrow> real \<Rightarrow> 'a NonlinearFactor list \<Rightarrow> Values
     \<Rightarrow> exn + real" where
  "total_error err acc [] vals = Inr acc"
| "total_error err acc (f # fs) vals =
     (case err f vals of
        Inl ex \<Rightarrow> Inl ex
      | Inr e \<Rightarrow> total_error err (acc + e) fs vals)"

text \<open>
  A library whose loader returns a given graph and estimate set, whose graph error is the
  sum of the factor errors and whose optimizer returns the estimates unchanged.
\<close>

definition example_library ::
  "('a NonlinearFactor \<Rightarrow> Values \<Rightarrow> exn + real) \<Rightarrow> 'a NonlinearFactor list \<Rightarrow> Values
     \<Rightarrow> 'a library" where
  "example_library err g v =
     \<lparr>readG2o = (\<lambda>p b. Inr (g, v)), graph_error = total_error err 0, factor_error = err,
      optimize = (\<lambda>params gr vals. Inr vals)\<rparr>"

text \<open>
  Small graphs over the keys 0 and 1. In the first two, the first constraint names key 1,
  which \<open>one_vertex\<close> does not hold: an edge of a g2o file whose second vertex has no
  vertex line.
\<close>

definition dangling_edge_graph :: "unit NonlinearFactor list" where
  "dangling_edge_graph =
     [BetweenFactorPose3 0 1 Pose3_identity (), BetweenFactorPose3 0 0 Pose3_identity ()]"

definition mixed_dangling_graph :: "unit NonlinearFactor list" where
  "mixed_dangling_graph = [BetweenFactorPose3 0 1 Pose3_identity (), OtherFactor ()]"

definition mixed_graph :: "unit NonlinearFactor list" where
  "mixed_graph = [OtherFactor (), BetweenFactorPose3 0 1 Pose3_identity ()]"

definition two_node_graph :: "Pose3 \<Rightarrow> unit NonlinearFactor list" where
  "two_node_graph m = [BetweenFactorPose3 0 1 m ()]"

definition two_node_values :: Values where
  "two_node_values = [0 \<mapsto> Pose3_identity, 1 \<mapsto> Pose3 Rot3_identity (Point3 1 0 0)]"

definition one_vertex :: Values where
  "one_vertex = [0 \<mapsto> Pose3_identity]"

definition two_vertices :: Values where
  "two_vertices = [0 \<mapsto> Pose3_identity, 1 \<mapsto> Pose3_identity]"

section \<open>Matrix and vector algebra\<close>

lemma Rot3_compose_assoc:
  "Rot3_compose (Rot3_compose A B) C = Rot3_compose A (Rot3_compose B C)"
  by (cases A; cases B; cases C) (simp add: algebra_simps)

lemma Rot3_rotate_compose:
  "Rot3_rotate (Rot3_compose A B) v = Rot3_rotate A (Rot3_rotate B v)"
  by (cases A; cases B; cases v) (simp add: algebra_simps)

lemma Rot3_inverse_compose:
  "Rot3_inverse (Rot3_compose A B) = Rot3_compose (Rot3_inverse B) (Rot3_inverse A)"
  by (cases A; cases B) (simp add: algebra_simps)

lemma Rot3_inverse_inverse: "Rot3_inverse (Rot3_inverse A) = A"
  by (cases A) simp

lemma Rot3_det_compose: "Rot3_det (Rot3_compose A B) = Rot3_det A * Rot3_det B"
  by (cases A; cases B) (simp add: algebra_simps)

lemma Rot3_det_inverse: "Rot3_det (Rot3_inverse A) = Rot3_det A"
  by (cases A) (simp add: algebra_simps)

lemma Rot3_compose_identity_left: "Rot3_compose Rot3_identity A = A"
  by (cases A) (simp add: Rot3_identity_def)

lemma Rot3_compose_identity_right: "Rot3_compose A Rot3_identity = A"
  by (cases A) (simp add: Rot3_identity_def)

lemma Rot3_rotate_identity: "Rot3_rotate Rot3_identity v = v"
  by (cases v) (simp add: Rot3_identity_def)

lemma Rot3_rotate_plus:
  "Rot3_rotate A (Point3_plus u v) = Point3_plus (Rot3_rotate A u) (Rot3_rotate A v)"
  by (cases A; cases u; cases v) (simp add: algebra_simps)

lemma Rot3_rotate_uminus: "Rot3_rotate A (Point3_uminus v) = Point3_uminus (Rot3_rotate A v)"
  by (cases A; cases v) (simp add: algebra_simps)

lemma Point3_plus_uminus_left: "Point3_plus (Point3_uminus v) v = Point3 0 0 0"
  by (cases v) simp

lemma Point3_plus_assoc: "Point3_plus (Point3_plus u v) w = Point3_plus u (Point3_plus v w)"
  by (cases u; cases v; cases w) simp

lemma Point3_uminus_plus:
  "Point3_uminus (Point3_plus u v) = Point3_plus (Point3_uminus u) (Point3_uminus v)"
  by (cases u; cases v) simp

lemma Point3_plus_commute: "Point3_plus u v = Point3_plus v u"
  by (cases u; cases v) simp

lemma Point3_uminus_uminus: "Point3_uminus (Point3_uminus v) = v"
  by (cases v) simp

lemma is_rotation_identity: "is_rotation Rot3_identity"
  by (simp add: is_rotation_def Rot3_identity_def)

lemma is_rotation_inverse: "is_rotation R \<Longrightarrow> is_rotation (Rot3_inverse R)"
  by (simp add: is_rotation_def Rot3_inverse_inverse Rot3_det_inverse)

lemma is_rotation_compose:
  assumes "is_rotation A" and "is_rotation B"
  shows "is_rotation (Rot3_compose A B)"
proof -
  have a1: "Rot3_compose (Rot3_inverse A) A = Rot3_identity"
    and a2: "Rot3_compose A (Rot3_inverse A) = Rot3_identity"
    and b1: "Rot3_compose (Rot3_inverse B) B = Rot3_identity"
    and b2: "Rot3_compose B (Rot3_inverse B) = Rot3_identity"
    and d: "Rot3_det A = 1" "Rot3_det B = 1"
    using assms by (simp_all add: is_rotation_def)
  have "Rot3_compose (Rot3_inverse (Rot3_compose A B)) (Rot3_compose A B)
      = Rot3_compose (Rot3_inverse B) (Rot3_compose (Rot3_compose (Rot3_inverse A) A) B)"
    by (simp add: Rot3_inverse_compose Rot3_compose_assoc)
  then have l: "Rot3_compose (Rot3_inverse (Rot3_compose A B)) (Rot3_compose A B) = Rot3_identity"
    by (simp add: a1 b1 Rot3_compose_identity_left)
  have "Rot3_compose (Rot3_compose A B) (Rot3_inverse (Rot3_compose A B))
      = Rot3_compose A (Rot3_compose (Rot3_compose B (Rot3_inverse B)) (Rot3_inverse A))"
    by (simp add: Rot3_inverse_compose Rot3_compose_assoc)
  then have r: "Rot3_compose (Rot3_compose A B) (Rot3_inverse (Rot3_compose A B)) = Rot3_identity"
    by (simp add: a2 b2 Rot3_compose_identity_left)
  show ?thesis
    by (simp add: is_rotation_def l r Rot3_det_compose d)
qed

lemma atan2_eq_0_iff: "atan2 y x = 0 \<longleftrightarrow> y = 0 \<and> 0 \<le> x"
proof -
  have lo: "- (pi / 2) < arctan (y / x)" by (rule arctan_lbound)
  have hi: "arctan (y / x) < pi / 2" by (rule arctan_ubound)
  have p: "0 < pi" by (rule pi_gt_zero)
  consider "0 < x" | "x < 0" "0 \<le> y" | "x < 0" "y < 0" | "x = 0" "0 < y" | "x = 0" "y < 0"
    | "x = 0" "y = 0"
    by linarith
  then show ?thesis
  proof cases
    case 1
    then show ?thesis by (simp add: atan2_def)
  next
    case 2
    have "arctan (y / x) + pi \<noteq> 0" using lo p by linarith
    with 2 show ?thesis by (simp add: atan2_def)
  next
    case 3
    have "arctan (y / x) - pi \<noteq> 0" using hi p by linarith
    with 3 show ?thesis by (simp add: atan2_def)
  next
    case 4
    then show ?thesis using p by (simp add: atan2_def)
  next
    case 5
    then show ?thesis using p by (simp add: atan2_def)
  next
    case 6
    then show ?thesis by (simp add: atan2_def)
  qed
qed

lemma Vector3_norm_eq_0_iff: "Vector3_norm v = 0 \<longleftrightarrow> v = Point3 0 0 0"
proof (cases v)
  case (Point3 a b c)
  have "a * a + b * b + c * c = 0 \<longleftrightarrow> a = 0 \<and> b = 0 \<and> c = 0"
  proof
    assume h: "a * a + b * b + c * c = 0"
    have "0 \<le> a * a" "0 \<le> b * b" "0 \<le> c * c" by simp_all
    with h have "a * a = 0" "b * b = 0" "c * c = 0" by linarith+
    then show "a = 0 \<and> b = 0 \<and> c = 0" by simp
  qed simp
  moreover have "0 \<le> a * a + b * b + c * c"
    by simp
  ultimately show ?thesis using Point3 by simp
qed

lemma Rx_0: "Rx 0 = Rot3_identity"
  by (simp add: Rx_def Rot3_identity_def)

lemma Ry_0: "Ry 0 = Rot3_identity"
  by (simp add: Ry_def Rot3_identity_def)

lemma xyz_identity: "xyz Rot3_identity = Point3 0 0 0"
  by (simp add: xyz_def Rot3_identity_def atan2_def Rx_def Ry_def)



lemma square_one_nonneg: "x * x = 1 \<Longrightarrow> 0 \<le> x \<Longrightarrow> x = (1::real)"
proof -
  assume h: "x * x = 1" and n: "0 \<le> x"
  have "(x - 1) * (x + 1) = 0" using h by (simp add: algebra_simps)
  then have "x - 1 = 0 \<or> x + 1 = 0" by (simp only: mult_eq_0_iff)
  with n show ?thesis by linarith
qed

lemma xyz_eq_0_imp_identity:
  assumes rot: "is_rotation R" and z: "xyz R = Point3 0 0 0"
  shows "R = Rot3_identity"
proof (cases R)
  case (Rot3 a00 a01 a02 a10 a11 a12 a20 a21 a22)
  have x0: "atan2 (- m21 R) (m22 R) = 0"
    using z by (simp add: xyz_def Let_def)
  have y0: "atan2 (m20 R) (m22 R) = 0"
    using z by (simp add: xyz_def Let_def x0 Rx_0 Rot3_compose_identity_right)
  have z0: "atan2 (- m10 R) (m11 R) = 0"
    using z by (simp add: xyz_def Let_def x0 y0 Rx_0 Ry_0 Rot3_compose_identity_right)
  have e: "a21 = 0" "a20 = 0" "a10 = 0" "0 \<le> a22" "0 \<le> a11"
    using x0 y0 z0 unfolding Rot3 by (simp_all add: atan2_eq_0_iff)
  have o2: "Rot3_compose R (Rot3_inverse R) = Rot3_identity" and d: "Rot3_det R = 1"
    using rot by (simp_all add: is_rotation_def)
  have r22: "a20 * a20 + a21 * a21 + a22 * a22 = 1"
    and r12: "a10 * a20 + a11 * a21 + a12 * a22 = 0"
    and r11: "a10 * a10 + a11 * a11 + a12 * a12 = 1"
    and r01: "a00 * a10 + a01 * a11 + a02 * a12 = 0"
    and r02: "a00 * a20 + a01 * a21 + a02 * a22 = 0"
    using o2 unfolding Rot3 Rot3_identity_def by simp_all
  have "a22 * a22 = 1"
    using r22 e by simp
  then have a22: "a22 = 1"
    using e(4) by (rule square_one_nonneg)
  have a12: "a12 = 0"
    using r12 e a22 by simp
  have "a11 * a11 = 1"
    using r11 e a12 by simp
  then have a11: "a11 = 1"
    using e(5) by (rule square_one_nonneg)
  have a01: "a01 = 0"
    using r01 e a11 a12 by simp
  have a02: "a02 = 0"
    using r02 e a22 by simp
  have a00: "a00 = 1"
    using d unfolding Rot3 by (simp add: e a22 a12 a11 a01 a02)
  show ?thesis
    unfolding Rot3 Rot3_identity_def by (simp add: e a22 a12 a11 a01 a02 a00)
qed

section \<open>The poses form a group\<close>

lemma rotation_between:
  "rotation (between p g) = Rot3_compose (Rot3_inverse (rotation p)) (rotation g)"
  by (cases p; cases g) (simp add: between_def Let_def)

lemma is_rotation_between:
  "is_rotation (rotation p) \<Longrightarrow> is_rotation (rotation g) \<Longrightarrow> is_rotation (rotation (between p g))"
  by (simp add: rotation_between is_rotation_compose is_rotation_inverse)

lemma Pose3_compose_assoc:
  "Pose3_compose (Pose3_compose a b) c = Pose3_compose a (Pose3_compose b c)"
  by (cases a; cases b; cases c)
    (simp add: Rot3_compose_assoc Rot3_rotate_compose Rot3_rotate_plus Point3_plus_assoc)

lemma Pose3_compose_identity_left: "Pose3_compose Pose3_identity p = p"
  by (cases p; cases "translation p")
    (simp add: Pose3_identity_def Rot3_compose_identity_left Rot3_rotate_identity)

lemma Pose3_inverse_left:
  assumes "is_rotation (rotation p)"
  shows "Pose3_compose (Pose3_inverse p) p = Pose3_identity"
proof (cases p)
  case (Pose3 R t)
  with assms have "Rot3_compose (Rot3_inverse R) R = Rot3_identity"
    by (simp add: is_rotation_def)
  with Pose3 show ?thesis
    by (simp add: Let_def Pose3_identity_def Rot3_rotate_uminus Point3_plus_uminus_left)
qed

lemma Pose3_inverse_right:
  assumes "is_rotation (rotation p)"
  shows "Pose3_compose p (Pose3_inverse p) = Pose3_identity"
proof (cases p)
  case (Pose3 R t)
  with assms have r: "Rot3_compose R (Rot3_inverse R) = Rot3_identity"
    by (simp add: is_rotation_def)
  have "Rot3_rotate R (Rot3_rotate (Rot3_inverse R) (Point3_uminus t)) = Point3_uminus t"
    by (simp add: Rot3_rotate_compose [symmetric] r Rot3_rotate_identity)
  with Pose3 r show ?thesis
    by (cases t) (simp add: Let_def Pose3_identity_def)
qed

lemma between_self:
  "is_rotation (rotation m) \<Longrightarrow> between m m = Pose3_identity"
  by (simp add: between_def Pose3_inverse_left)

lemma rotation_inverse: "rotation (Pose3_inverse p) = Rot3_inverse (rotation p)"
  by (cases p) (simp add: Let_def)

lemma Pose3_inverse_compose:
  assumes "is_rotation (rotation a)"
  shows "Pose3_inverse (Pose3_compose a b) = Pose3_compose (Pose3_inverse b) (Pose3_inverse a)"
proof (cases a)
  case a: (Pose3 R1 t1)
  show ?thesis
  proof (cases b)
    case b: (Pose3 R2 t2)
    from assms a have l: "Rot3_compose (Rot3_inverse R1) R1 = Rot3_identity"
      by (simp add: is_rotation_def)
    have "Rot3_rotate (Rot3_inverse R1) (Rot3_rotate R1 t2) = t2"
      by (simp add: Rot3_rotate_compose [symmetric] l Rot3_rotate_identity)
    then show ?thesis
      unfolding a b
      by (simp add: Let_def Rot3_inverse_compose Rot3_rotate_compose Rot3_rotate_plus
          Rot3_rotate_uminus Point3_uminus_plus Point3_plus_commute)
  qed
qed

lemma Pose3_inverse_inverse:
  assumes "is_rotation (rotation p)"
  shows "Pose3_inverse (Pose3_inverse p) = p"
proof (cases p)
  case (Pose3 R t)
  with assms have r: "Rot3_compose R (Rot3_inverse R) = Rot3_identity"
    by (simp add: is_rotation_def)
  have "Rot3_rotate R (Rot3_rotate (Rot3_inverse R) t) = t"
    by (simp add: Rot3_rotate_compose [symmetric] r Rot3_rotate_identity)
  with Pose3 show ?thesis
    by (simp add: Let_def Rot3_inverse_inverse Rot3_rotate_uminus Point3_uminus_uminus)
qed

lemma Pose3_inverse_between:
  "is_rotation (rotation p1) \<Longrightarrow> Pose3_inverse (between p1 p2) = between p2 p1"
  by (simp add: between_def Pose3_inverse_compose Pose3_inverse_inverse rotation_inverse
      is_rotation_inverse)

lemma residual_pair_identity: "residual_pair Pose3_identity = (0, 0)"
  by (simp add: residual_pair_def Pose3_identity_def xyz_identity)

lemma residual_pair_zero_imp_identity:
  assumes "is_rotation (rotation d)" and "residual_pair d = (0, 0)"
  shows "d = Pose3_identity"
proof (cases d)
  case (Pose3 R t)
  from assms Pose3 have "t = Point3 0 0 0" and "xyz R = Point3 0 0 0"
    by (simp_all add: residual_pair_def Vector3_norm_eq_0_iff)
  moreover from assms Pose3 have "is_rotation R" by simp
  ultimately show ?thesis
    using Pose3 by (simp add: Pose3_identity_def xyz_eq_0_imp_identity)
qed

lemma Pose3_compose_inverses_identity:
  assumes r: "is_rotation (rotation m)"
    and i: "Pose3_compose (Pose3_inverse m) (Pose3_inverse m) = Pose3_identity"
  shows "Pose3_compose m m = Pose3_identity"
proof -
  have "Pose3_inverse (Pose3_compose m m) = Pose3_identity"
    using r i by (simp add: Pose3_inverse_compose)
  then have "Pose3_inverse (Pose3_inverse (Pose3_compose m m)) = Pose3_inverse Pose3_identity"
    by simp
  moreover have "is_rotation (rotation (Pose3_compose m m))"
    using r by (cases m) (simp add: is_rotation_compose)
  moreover have "Pose3_inverse Pose3_identity = Pose3_identity"
    by (simp add: Pose3_identity_def Rot3_identity_def Let_def)
  ultimately show ?thesis
    by (simp add: Pose3_inverse_inverse)
qed

section \<open>The residuals of one constraint\<close>

text \<open>
  Claim C2. When the measured relative pose of a constraint is exactly
  \<open>between pose1 pose2\<close> for the two estimated poses, the forward difference
  \<open>between measured (between pose1 pose2)\<close> is the identity transform, and the forward
  pair that \<open>computeResidual\<close> returns is translation norm 0 and rotation norm 0. The
  two poses are rotations in the sense of the library's class invariant, and the arithmetic
  is exact.
\<close>

theorem forward_difference_of_exact_measurement_is_identity:
  assumes "is_rotation (rotation pose1)" and "is_rotation (rotation pose2)"
    and "vals k1 = Some pose1" and "vals k2 = Some pose2"
  shows "between (between pose1 pose2) (between pose1 pose2) = Pose3_identity \<and>
         residual_pair (between (between pose1 pose2) (between pose1 pose2)) = (0, 0) \<and>
         (\<exists>bwd. computeResidual (between pose1 pose2) k1 k2 vals = Inr ((0, 0), bwd))"
proof -
  have "is_rotation (rotation (between pose1 pose2))"
    using assms(1,2) by (rule is_rotation_between)
  then have i: "between (between pose1 pose2) (between pose1 pose2) = Pose3_identity"
    by (rule between_self)
  then show ?thesis
    using assms(3,4) by (simp add: computeResidual_def Values_at_def residual_pair_identity)
qed

text \<open>An instance: the first pose is the identity, the second a quarter turn about z.\<close>

theorem forward_difference_of_exact_measurement_witness:
  "between (between Pose3_identity (Pose3 (Rot3 0 (- 1) 0  1 0 0  0 0 1) (Point3 1 2 3)))
           (between Pose3_identity (Pose3 (Rot3 0 (- 1) 0  1 0 0  0 0 1) (Point3 1 2 3)))
     = Pose3_identity \<and>
   residual_pair
     (between (between Pose3_identity (Pose3 (Rot3 0 (- 1) 0  1 0 0  0 0 1) (Point3 1 2 3)))
              (between Pose3_identity (Pose3 (Rot3 0 (- 1) 0  1 0 0  0 0 1) (Point3 1 2 3))))
     = (0, 0) \<and>
   (\<exists>bwd. computeResidual
      (between Pose3_identity (Pose3 (Rot3 0 (- 1) 0  1 0 0  0 0 1) (Point3 1 2 3))) 0 1
      [0 \<mapsto> Pose3_identity, 1 \<mapsto> Pose3 (Rot3 0 (- 1) 0  1 0 0  0 0 1) (Point3 1 2 3)]
      = Inr ((0, 0), bwd))"
proof -
  have h1: "is_rotation (rotation Pose3_identity)"
    by (simp add: is_rotation_def Pose3_identity_def Rot3_identity_def)
  have h2: "is_rotation (rotation (Pose3 (Rot3 0 (- 1) 0  1 0 0  0 0 1) (Point3 1 2 3)))"
    by (simp add: is_rotation_def Rot3_identity_def)
  have h3: "[0 \<mapsto> Pose3_identity, 1 \<mapsto> Pose3 (Rot3 0 (- 1) 0  1 0 0  0 0 1) (Point3 1 2 3)]
              (0 :: Key) = Some Pose3_identity"
    by simp
  have h4: "[0 \<mapsto> Pose3_identity, 1 \<mapsto> Pose3 (Rot3 0 (- 1) 0  1 0 0  0 0 1) (Point3 1 2 3)]
              (1 :: Key) = Some (Pose3 (Rot3 0 (- 1) 0  1 0 0  0 0 1) (Point3 1 2 3))"
    by simp
  show ?thesis
    by (rule forward_difference_of_exact_measurement_is_identity [OF h1 h2 h3 h4])
qed

text \<open>
  Claim C4. Taking the two poses of a constraint in the other order, with the same
  measured pose, swaps the two residual pairs: the forward pair of the swapped constraint is
  the backward pair of the original one, and the backward pair is the forward pair.
\<close>

theorem swapping_poses_swaps_residual_pairs:
  "computeResidual m k1 k2 vals = Inr (fwd, bwd) \<Longrightarrow>
   computeResidual m k2 k1 vals = Inr (bwd, fwd)"
  by (auto simp: computeResidual_def Let_def split: sum.splits)

text \<open>An instance: both orders of one constraint on a two-node estimate set.\<close>

theorem swapping_poses_witness:
  "computeResidual (Pose3 Rot3_identity (Point3 2 0 0)) 0 1
     [0 \<mapsto> Pose3_identity, 1 \<mapsto> Pose3 Rot3_identity (Point3 1 0 0)] = Inr ((1, 0), (3, 0)) \<and>
   computeResidual (Pose3 Rot3_identity (Point3 2 0 0)) 1 0
     [0 \<mapsto> Pose3_identity, 1 \<mapsto> Pose3 Rot3_identity (Point3 1 0 0)] = Inr ((3, 0), (1, 0))"
proof -
  have h: "computeResidual (Pose3 Rot3_identity (Point3 2 0 0)) 0 1
     [0 \<mapsto> Pose3_identity, 1 \<mapsto> Pose3 Rot3_identity (Point3 1 0 0)] = Inr ((1, 0), (3, 0))"
    by (simp add: computeResidual_def Values_at_def between_def Pose3_identity_def
        Rot3_identity_def residual_pair_def xyz_def atan2_def Rx_def Ry_def Let_def)
  from h swapping_poses_swaps_residual_pairs [OF h] show ?thesis by simp
qed

text \<open>
  Claim C7. On the two-node graph with \<open>pose1\<close> the identity and \<open>pose2\<close> the
  translation by (1, 0, 0): a measured translation by (1, 0, 0) gives the forward pair
  (0, 0), and a measured translation by (2, 0, 0) gives forward translation norm 1 (exactly,
  so within the tolerance 1e-9). The whole program, run on the graph with that one
  constraint, prints these pairs.
\<close>

theorem end_to_end_two_node_graph:
  "computeResidual (Pose3 Rot3_identity (Point3 1 0 0)) 0 1 two_node_values
     = Inr ((0, 0), (2, 0)) \<and>
   computeResidual (Pose3 Rot3_identity (Point3 2 0 0)) 0 1 two_node_values
     = Inr ((1, 0), (3, 0)) \<and>
   (\<exists>t r bwd. computeResidual (Pose3 Rot3_identity (Point3 2 0 0)) 0 1 two_node_values
                 = Inr ((t, r), bwd) \<and> \<bar>t - 1\<bar> \<le> 1 / 10 ^ 9) \<and>
   main (example_library lenient_error
           (two_node_graph (Pose3 Rot3_identity (Point3 1 0 0))) two_node_values) [''g2o-test'']
     = (Returned 0,
        [InitialError 0, Separator, FactorError 0 0, NodeLine 0 1,
         TranslationDifference 0 0, TranslationDifferenceV2 2 0, FinalError 0]) \<and>
   main (example_library lenient_error
           (two_node_graph (Pose3 Rot3_identity (Point3 2 0 0))) two_node_values) [''g2o-test'']
     = (Returned 0,
        [InitialError 0, Separator, FactorError 0 0, NodeLine 0 1,
         TranslationDifference 1 0, TranslationDifferenceV2 3 0, FinalError 0])"
proof -
  have a: "computeResidual (Pose3 Rot3_identity (Point3 1 0 0)) 0 1 two_node_values
      = Inr ((0, 0), (2, 0))"
    by (simp add: two_node_values_def computeResidual_def Values_at_def between_def
        Pose3_identity_def Rot3_identity_def residual_pair_def xyz_def atan2_def Rx_def Ry_def
        Let_def)
  have b: "computeResidual (Pose3 Rot3_identity (Point3 2 0 0)) 0 1 two_node_values
      = Inr ((1, 0), (3, 0))"
    by (simp add: two_node_values_def computeResidual_def Values_at_def between_def
        Pose3_identity_def Rot3_identity_def residual_pair_def xyz_def atan2_def Rx_def Ry_def
        Let_def)
  have c: "\<exists>t r bwd. computeResidual (Pose3 Rot3_identity (Point3 2 0 0)) 0 1 two_node_values
                 = Inr ((t, r), bwd) \<and> \<bar>t - 1\<bar> \<le> 1 / 10 ^ 9"
    by (simp add: b)
  have d: "main (example_library lenient_error
           (two_node_graph (Pose3 Rot3_identity (Point3 1 0 0))) two_node_values) [''g2o-test'']
     = (Returned 0,
        [InitialError 0, Separator, FactorError 0 0, NodeLine 0 1,
         TranslationDifference 0 0, TranslationDifferenceV2 2 0, FinalError 0])"
    by (simp add: main_def example_library_def lenient_error_def two_node_graph_def
        file_path_def is3D_def loop.simps body_def a emit_def Let_def)
  have e: "main (example_library lenient_error
           (two_node_graph (Pose3 Rot3_identity (Point3 2 0 0))) two_node_values) [''g2o-test'']
     = (Returned 0,
        [InitialError 0, Separator, FactorError 0 0, NodeLine 0 1,
         TranslationDifference 1 0, TranslationDifferenceV2 3 0, FinalError 0])"
    by (simp add: main_def example_library_def lenient_error_def two_node_graph_def
        file_path_def is3D_def loop.simps body_def b emit_def Let_def)
  show ?thesis
    by (intro conjI a b c d e)
qed

text \<open>
  Claim C5. The backward difference is not the group inverse of the forward difference:
  there are poses (all three rotations in the sense of the class invariant) for which
  \<open>between m (between pose2 pose1)\<close> differs from the inverse of
  \<open>between m (between pose1 pose2)\<close>, and for which even the two norms of the backward
  difference differ from the two norms of that inverse. So the backward pair cannot be
  obtained from the forward difference by inversion.
\<close>

theorem backward_difference_is_not_inverse_of_forward:
  "\<exists>pose1 pose2 m.
     is_rotation (rotation pose1) \<and> is_rotation (rotation pose2) \<and> is_rotation (rotation m) \<and>
     between m (between pose2 pose1) \<noteq> Pose3_inverse (between m (between pose1 pose2)) \<and>
     residual_pair (between m (between pose2 pose1))
       \<noteq> residual_pair (Pose3_inverse (between m (between pose1 pose2)))"
proof (intro exI conjI)
  show "is_rotation (rotation Pose3_identity)"
    by (simp add: Pose3_identity_def is_rotation_identity)
  show "is_rotation (rotation (Pose3 Rot3_identity (Point3 1 0 0)))"
    by (simp add: is_rotation_identity)
  show "is_rotation (rotation (Pose3 Rot3_identity (Point3 1 0 0)))"
    by (simp add: is_rotation_identity)
  show "between (Pose3 Rot3_identity (Point3 1 0 0))
          (between (Pose3 Rot3_identity (Point3 1 0 0)) Pose3_identity)
        \<noteq> Pose3_inverse (between (Pose3 Rot3_identity (Point3 1 0 0))
            (between Pose3_identity (Pose3 Rot3_identity (Point3 1 0 0))))"
    by (simp add: between_def Pose3_identity_def Rot3_identity_def Let_def)
  show "residual_pair (between (Pose3 Rot3_identity (Point3 1 0 0))
          (between (Pose3 Rot3_identity (Point3 1 0 0)) Pose3_identity))
        \<noteq> residual_pair (Pose3_inverse (between (Pose3 Rot3_identity (Point3 1 0 0))
            (between Pose3_identity (Pose3 Rot3_identity (Point3 1 0 0)))))"
    by (simp add: between_def Pose3_identity_def Rot3_identity_def Let_def residual_pair_def)
qed

text \<open>
  Claim C9. When the measured pose \<open>m\<close> of a constraint is exactly
  \<open>between pose1 pose2\<close> for the two estimated poses, the backward difference
  \<open>between m (between pose2 pose1)\<close> is the inverse of \<open>m\<close> composed with itself, and
  \<open>computeResidual\<close> returns the forward pair (0, 0) together with the two norms of that
  composition as the backward pair. Whenever \<open>m\<close> composed with itself is not the
  identity, the backward pair that \<open>computeResidual\<close> returns is not (0, 0), although
  the estimates satisfy the constraint exactly.
\<close>

theorem backward_difference_of_exact_measurement:
  assumes r1: "is_rotation (rotation pose1)" and r2: "is_rotation (rotation pose2)"
    and v1: "vals k1 = Some pose1" and v2: "vals k2 = Some pose2"
    and m: "m = between pose1 pose2"
  shows "between m (between pose2 pose1) = Pose3_compose (Pose3_inverse m) (Pose3_inverse m) \<and>
         (Pose3_compose m m \<noteq> Pose3_identity \<longrightarrow>
            residual_pair (between m (between pose2 pose1)) \<noteq> (0, 0)) \<and>
         computeResidual m k1 k2 vals
           = Inr ((0, 0), residual_pair (Pose3_compose (Pose3_inverse m) (Pose3_inverse m))) \<and>
         (Pose3_compose m m \<noteq> Pose3_identity \<longrightarrow>
            (\<exists>fwd bwd. computeResidual m k1 k2 vals = Inr (fwd, bwd) \<and> bwd \<noteq> (0, 0)))"
proof -
  have rm: "is_rotation (rotation m)"
    unfolding m using r1 r2 by (rule is_rotation_between)
  have inv: "between pose2 pose1 = Pose3_inverse m"
    unfolding m using r1 by (simp add: Pose3_inverse_between)
  have e: "between m (between pose2 pose1) = Pose3_compose (Pose3_inverse m) (Pose3_inverse m)"
    unfolding inv by (simp add: between_def)
  have rd: "is_rotation (rotation (between m (between pose2 pose1)))"
    using rm r2 r1 by (simp add: is_rotation_between)
  have z: "Pose3_compose m m = Pose3_identity"
    if z: "residual_pair (between m (between pose2 pose1)) = (0, 0)"
  proof -
    have "between m (between pose2 pose1) = Pose3_identity"
      using rd z by (rule residual_pair_zero_imp_identity)
    with e have "Pose3_compose (Pose3_inverse m) (Pose3_inverse m) = Pose3_identity"
      by simp
    with rm show ?thesis
      by (rule Pose3_compose_inverses_identity)
  qed
  have fw: "between m (between pose1 pose2) = Pose3_identity"
    unfolding m [symmetric] using rm by (rule between_self)
  have c: "computeResidual m k1 k2 vals
      = Inr (residual_pair (between m (between pose1 pose2)),
             residual_pair (between m (between pose2 pose1)))"
    using v1 v2 by (simp add: computeResidual_def Values_at_def)
  have c': "computeResidual m k1 k2 vals
      = Inr ((0, 0), residual_pair (Pose3_compose (Pose3_inverse m) (Pose3_inverse m)))"
    unfolding c fw e by (simp add: residual_pair_identity)
  have n: "residual_pair (Pose3_compose (Pose3_inverse m) (Pose3_inverse m)) \<noteq> (0, 0)"
    if "Pose3_compose m m \<noteq> Pose3_identity"
    using that z e by auto
  show ?thesis
    using e z c' n by (intro conjI impI) auto
qed

text \<open>
  An instance: the identity at key 0, the translation by (1, 0, 0) at key 1 and as the
  measured pose.
\<close>

theorem backward_difference_of_exact_measurement_witness:
  "between (Pose3 Rot3_identity (Point3 1 0 0))
     (between (Pose3 Rot3_identity (Point3 1 0 0)) Pose3_identity)
     = Pose3_compose (Pose3_inverse (Pose3 Rot3_identity (Point3 1 0 0)))
         (Pose3_inverse (Pose3 Rot3_identity (Point3 1 0 0))) \<and>
   Pose3_compose (Pose3 Rot3_identity (Point3 1 0 0)) (Pose3 Rot3_identity (Point3 1 0 0))
     \<noteq> Pose3_identity \<and>
   residual_pair (between (Pose3 Rot3_identity (Point3 1 0 0))
     (between (Pose3 Rot3_identity (Point3 1 0 0)) Pose3_identity)) \<noteq> (0, 0) \<and>
   computeResidual (Pose3 Rot3_identity (Point3 1 0 0)) 0 1 two_node_values
     = Inr ((0, 0), residual_pair
         (Pose3_compose (Pose3_inverse (Pose3 Rot3_identity (Point3 1 0 0)))
            (Pose3_inverse (Pose3 Rot3_identity (Point3 1 0 0))))) \<and>
   (\<exists>fwd bwd. computeResidual (Pose3 Rot3_identity (Point3 1 0 0)) 0 1 two_node_values
        = Inr (fwd, bwd) \<and> bwd \<noteq> (0, 0))"
proof -
  have h1: "is_rotation (rotation Pose3_identity)"
    by (simp add: Pose3_identity_def is_rotation_identity)
  have h2: "is_rotation (rotation (Pose3 Rot3_identity (Point3 1 0 0)))"
    by (simp add: is_rotation_identity)
  have v1: "two_node_values 0 = Some Pose3_identity"
    by (simp add: two_node_values_def)
  have v2: "two_node_values 1 = Some (Pose3 Rot3_identity (Point3 1 0 0))"
    by (simp add: two_node_values_def)
  have h3: "Pose3 Rot3_identity (Point3 1 0 0)
              = between Pose3_identity (Pose3 Rot3_identity (Point3 1 0 0))"
    by (simp add: between_def Pose3_identity_def Rot3_identity_def Let_def)
  have h4: "Pose3_compose (Pose3 Rot3_identity (Point3 1 0 0)) (Pose3 Rot3_identity (Point3 1 0 0))
              \<noteq> Pose3_identity"
    by (simp add: Pose3_identity_def Rot3_identity_def)
  from backward_difference_of_exact_measurement [OF h1 h2 v1 v2 h3] h4 show ?thesis
    by blast
qed

section \<open>The loop only writes output\<close>

lemma emit_emit: "emit ls' (emit ls s) = emit (ls @ ls') s"
  by (simp add: emit_def)

lemma emit_Nil: "emit [] s = s"
  by (simp add: emit_def)

lemma graph_emit: "graph (emit ls s) = graph s"
  by (simp add: emit_def)

lemma initial_emit: "initial (emit ls s) = initial s"
  by (simp add: emit_def)

lemma cout_emit: "cout (emit ls s) = cout s @ ls"
  by (simp add: emit_def)

text \<open>
  The body reads the state only through \<open>graph\<close> and \<open>initial\<close>: on two states that
  agree on both it ends the same way and writes the same lines.
\<close>

lemma body_congruent:
  assumes g: "graph s' = graph s" and v: "initial s' = initial s"
  shows "\<exists>ls. snd (body lib i s) = emit ls s \<and> snd (body lib i s') = emit ls s' \<and>
              fst (body lib i s') = fst (body lib i s)"
proof (cases "factor_error lib (graph s ! i) (initial s)")
  case (Inl ex)
  then have "snd (body lib i s) = emit [] s \<and> snd (body lib i s') = emit [] s' \<and>
      fst (body lib i s') = fst (body lib i s)"
    by (simp add: body_def emit_Nil g v)
  then show ?thesis ..
next
  case (Inr e)
  show ?thesis
  proof (cases "graph s ! i")
    case (OtherFactor n)
    with Inr have "snd (body lib i s) = emit [Separator, FactorError i e, NotBetweenFactor i] s \<and>
        snd (body lib i s') = emit [Separator, FactorError i e, NotBetweenFactor i] s' \<and>
        fst (body lib i s') = fst (body lib i s)"
      by (simp add: body_def emit_emit g v)
    then show ?thesis ..
  next
    case (BetweenFactorPose3 k1 k2 m n)
    show ?thesis
    proof (cases "computeResidual m k1 k2 (initial s)")
      case (Inl ex)
      with Inr BetweenFactorPose3 have "snd (body lib i s) = emit [Separator, FactorError i e] s \<and>
          snd (body lib i s') = emit [Separator, FactorError i e] s' \<and>
          fst (body lib i s') = fst (body lib i s)"
        by (simp add: body_def initial_emit g v)
      then show ?thesis ..
    next
      case r: (Inr p)
      with Inr BetweenFactorPose3 have "snd (body lib i s) =
          emit [Separator, FactorError i e, NodeLine k1 k2,
                TranslationDifference (fst (fst p)) (snd (fst p)),
                TranslationDifferenceV2 (fst (snd p)) (snd (snd p))] s \<and>
        snd (body lib i s') =
          emit [Separator, FactorError i e, NodeLine k1 k2,
                TranslationDifference (fst (fst p)) (snd (fst p)),
                TranslationDifferenceV2 (fst (snd p)) (snd (snd p))] s' \<and>
        fst (body lib i s') = fst (body lib i s)"
        by (cases p) (simp add: body_def initial_emit emit_emit g v)
      then show ?thesis ..
    qed
  qed
qed

lemma body_emits: "\<exists>ls. snd (body lib i s) = emit ls s"
  using body_congruent [of s s lib i] by blast

lemma loop_emits: "\<exists>ls. snd (loop lib i s) = emit ls s"
proof (induction lib i s rule: loop.induct)
  case (1 lib i s)
  show ?case
  proof (cases "i < length (graph s)")
    case False
    then have "snd (loop lib i s) = emit [] s"
      by (simp add: loop.simps [of lib i s] emit_Nil)
    then show ?thesis ..
  next
    case True
    obtain x s' where b: "body lib i s = (x, s')"
      by (cases "body lib i s")
    from body_emits [of lib i s] b obtain ls where s': "s' = emit ls s"
      by auto
    show ?thesis
    proof (cases x)
      case (Some ex)
      with True b have "snd (loop lib i s) = s'"
        by (simp add: loop.simps [of lib i s])
      with s' show ?thesis by blast
    next
      case None
      with True b have l: "loop lib i s = loop lib (i + 1) s'"
        by (simp add: loop.simps [of lib i s])
      from "1.IH" [OF True b [symmetric] None] obtain ls' where "snd (loop lib (i + 1) s') = emit ls' s'"
        by blast
      with l s' have "snd (loop lib i s) = emit (ls @ ls') s"
        by (simp add: emit_emit)
      then show ?thesis ..
    qed
  qed
qed

text \<open>
  Claim C6. The diagnostic pass never changes the pose estimates or the constraints: after
  the loop (run from any index, whether it ends normally or by an exception) \<open>graph\<close> and
  \<open>initial\<close> are what they were, and the only difference in the state is the text
  appended to the output.
\<close>

theorem diagnostic_pass_is_read_only:
  "graph (snd (loop lib i s)) = graph s \<and> initial (snd (loop lib i s)) = initial s \<and>
   (\<exists>ls. snd (loop lib i s) = s\<lparr>cout := cout s @ ls\<rparr>)"
proof -
  from loop_emits [of lib i s] obtain ls where "snd (loop lib i s) = emit ls s" ..
  then show ?thesis
    by (auto simp: emit_def)
qed

section \<open>The loop over the factors\<close>

lemma visited_append: "visited (xs @ ys) = visited xs @ visited ys"
  by (induction xs rule: visited.induct) simp_all

lemma skipped_append: "skipped (xs @ ys) = skipped xs @ skipped ys"
  by (induction xs rule: skipped.induct) simp_all

lemma evaluated_append: "evaluated (xs @ ys) = evaluated xs @ evaluated ys"
  by (induction xs rule: evaluated.induct) simp_all

lemma body_other:
  assumes "graph s ! i = OtherFactor n"
    and "factor_error lib (OtherFactor n) (initial s) = Inr e"
  shows "body lib i s = (None, emit [Separator, FactorError i e, NotBetweenFactor i] s)"
  using assms by (simp add: body_def emit_emit)

lemma body_between:
  assumes "graph s ! i = BetweenFactorPose3 k1 k2 m n"
    and "factor_error lib (BetweenFactorPose3 k1 k2 m n) (initial s) = Inr e"
    and "computeResidual m k1 k2 (initial s) = Inr (fwd, bwd)"
  shows "body lib i s = (None, emit [Separator, FactorError i e, NodeLine k1 k2,
           TranslationDifference (fst fwd) (snd fwd),
           TranslationDifferenceV2 (fst bwd) (snd bwd)] s)"
  using assms by (simp add: body_def emit_emit initial_emit)

lemma computeResidual_returns:
  assumes "k1 \<in> dom vals" and "k2 \<in> dom vals"
  shows "\<exists>fwd bwd. computeResidual m k1 k2 vals = Inr (fwd, bwd)"
  using assms by (auto simp: computeResidual_def Values_at_def Let_def)

lemma body_completes:
  assumes i: "i < length (graph s)"
    and H1: "\<forall>f\<in>set (graph s). \<exists>e. factor_error lib f (initial s) = Inr e"
    and H2: "\<forall>f\<in>set (graph s). is_between f \<longrightarrow>
               key1 f \<in> dom (initial s) \<and> key2 f \<in> dom (initial s)"
  shows "\<exists>lb. body lib i s = (None, emit lb s) \<and> visited lb = [i] \<and>
           skipped lb = (if is_between (graph s ! i) then [] else [i]) \<and>
           evaluated lb = (if is_between (graph s ! i)
                           then [(key1 (graph s ! i), key2 (graph s ! i))] else [])"
proof -
  from i have mem: "graph s ! i \<in> set (graph s)" by simp
  with H1 obtain e where e: "factor_error lib (graph s ! i) (initial s) = Inr e" by blast
  show ?thesis
  proof (cases "graph s ! i")
    case (OtherFactor n)
    with e have "body lib i s = (None, emit [Separator, FactorError i e, NotBetweenFactor i] s)"
      by (simp add: body_other)
    with OtherFactor show ?thesis
      by (intro exI [of _ "[Separator, FactorError i e, NotBetweenFactor i]"]) simp
  next
    case (BetweenFactorPose3 k1 k2 m n)
    with mem H2 have "k1 \<in> dom (initial s)" "k2 \<in> dom (initial s)" by force+
    then obtain fwd bwd where "computeResidual m k1 k2 (initial s) = Inr (fwd, bwd)"
      using computeResidual_returns by blast
    with BetweenFactorPose3 e have "body lib i s = (None, emit [Separator, FactorError i e,
        NodeLine k1 k2, TranslationDifference (fst fwd) (snd fwd),
        TranslationDifferenceV2 (fst bwd) (snd bwd)] s)"
      by (simp add: body_between)
    with BetweenFactorPose3 show ?thesis
      by (intro exI [of _ "[Separator, FactorError i e, NodeLine k1 k2,
        TranslationDifference (fst fwd) (snd fwd),
        TranslationDifferenceV2 (fst bwd) (snd bwd)]"]) simp
  qed
qed

lemma loop_completes:
  assumes H1: "\<forall>f\<in>set (graph s). \<exists>e. factor_error lib f (initial s) = Inr e"
    and H2: "\<forall>f\<in>set (graph s). is_between f \<longrightarrow>
               key1 f \<in> dom (initial s) \<and> key2 f \<in> dom (initial s)"
  shows "\<exists>ls. loop lib i s = (None, emit ls s) \<and>
           visited ls = [i..<length (graph s)] \<and>
           skipped ls = filter (\<lambda>j. \<not> is_between (graph s ! j)) [i..<length (graph s)] \<and>
           evaluated ls = map (\<lambda>f. (key1 f, key2 f)) (filter is_between (drop i (graph s)))"
  using assms
proof (induction lib i s rule: loop.induct)
  case (1 lib i s)
  show ?case
  proof (cases "i < length (graph s)")
    case False
    then have "loop lib i s = (None, emit [] s)"
      by (simp add: loop.simps [of lib i s] emit_Nil)
    with False show ?thesis
      by (intro exI [of _ "[]"]) simp
  next
    case True
    from body_completes [OF True "1.prems"] obtain lb
      where b: "body lib i s = (None, emit lb s)" and vb: "visited lb = [i]"
        and sb: "skipped lb = (if is_between (graph s ! i) then [] else [i])"
        and eb: "evaluated lb = (if is_between (graph s ! i)
                   then [(key1 (graph s ! i), key2 (graph s ! i))] else [])"
      by blast
    from True b have l: "loop lib i s = loop lib (i + 1) (emit lb s)"
      by (simp add: loop.simps [of lib i s])
    have "\<exists>ls. loop lib (i + 1) (emit lb s) = (None, emit ls (emit lb s)) \<and>
           visited ls = [i + 1..<length (graph (emit lb s))] \<and>
           skipped ls = filter (\<lambda>j. \<not> is_between (graph (emit lb s) ! j))
                          [i + 1..<length (graph (emit lb s))] \<and>
           evaluated ls = map (\<lambda>f. (key1 f, key2 f))
                          (filter is_between (drop (i + 1) (graph (emit lb s))))"
      using "1.prems" by (intro "1.IH" [OF True b [symmetric] refl]) (simp_all add: graph_emit initial_emit)
    then obtain ls where r: "loop lib (i + 1) (emit lb s) = (None, emit ls (emit lb s))"
      and vr: "visited ls = [i + 1..<length (graph s)]"
      and sr: "skipped ls = filter (\<lambda>j. \<not> is_between (graph s ! j)) [i + 1..<length (graph s)]"
      and er: "evaluated ls = map (\<lambda>f. (key1 f, key2 f)) (filter is_between (drop (i + 1) (graph s)))"
      by (auto simp: graph_emit)
    have d: "drop i (graph s) = graph s ! i # drop (i + 1) (graph s)"
      using True by (simp add: Cons_nth_drop_Suc)
    have u: "[i..<length (graph s)] = i # [i + 1..<length (graph s)]"
      using True by (simp add: upt_conv_Cons)
    have "loop lib i s = (None, emit (lb @ ls) s)"
      unfolding l r by (simp add: emit_emit)
    moreover have "visited (lb @ ls) = [i..<length (graph s)]"
      by (simp add: visited_append vb vr u)
    moreover have "skipped (lb @ ls)
        = filter (\<lambda>j. \<not> is_between (graph s ! j)) [i..<length (graph s)]"
      by (simp add: skipped_append sb sr u)
    moreover have "evaluated (lb @ ls)
        = map (\<lambda>f. (key1 f, key2 f)) (filter is_between (drop i (graph s)))"
      by (simp add: evaluated_append eb er d)
    ultimately show ?thesis by blast
  qed
qed

text \<open>
  Claim C1, as the code has it. For a constraint whose \<open>key1\<close> or \<open>key2\<close> is absent from
  the estimate set, the residual computation fails with the missing-key exception
  \<open>ValuesKeyDoesNotExist\<close> on the first absent key (\<open>key1\<close> if it is absent, else
  \<open>key2\<close>). Nothing catches the exception: the loop ends at that factor with that very
  exception, having printed for the factor only its separator and its "Factor i error"
  line, and no later factor is processed. (When the factor's own \<^verbatim>\<open>error\<close> call
  raises first, the loop ends with that exception and prints nothing.)
\<close>

theorem missing_key_ends_the_pass:
  assumes i: "i < length (graph s)"
    and f: "graph s ! i = BetweenFactorPose3 k1 k2 m n"
    and k: "initial s k1 = None \<or> initial s k2 = None"
  shows "initial s (if initial s k1 = None then k1 else k2) = None \<and>
         computeResidual m k1 k2 (initial s)
           = Inl (ValuesKeyDoesNotExist (if initial s k1 = None then k1 else k2)) \<and>
         loop lib i s =
           (case factor_error lib (graph s ! i) (initial s) of
              Inl ex \<Rightarrow> (Some ex, s)
            | Inr e \<Rightarrow>
                (Some (ValuesKeyDoesNotExist (if initial s k1 = None then k1 else k2)),
                 emit [Separator, FactorError i e] s))"
proof -
  have a: "initial s (if initial s k1 = None then k1 else k2) = None"
    using k by auto
  have c: "computeResidual m k1 k2 (initial s)
      = Inl (ValuesKeyDoesNotExist (if initial s k1 = None then k1 else k2))"
  proof (cases "initial s k1")
    case None
    then show ?thesis
      by (simp add: computeResidual_def Values_at_def)
  next
    case (Some p)
    with k have "initial s k2 = None" by simp
    with Some show ?thesis
      by (simp add: computeResidual_def Values_at_def)
  qed
  have l: "loop lib i s = body lib i s" if "fst (body lib i s) \<noteq> None"
    using that i by (cases "body lib i s") (auto simp: loop.simps [of lib i s])
  have "loop lib i s =
           (case factor_error lib (graph s ! i) (initial s) of
              Inl ex \<Rightarrow> (Some ex, s)
            | Inr e \<Rightarrow>
                (Some (ValuesKeyDoesNotExist (if initial s k1 = None then k1 else k2)),
                 emit [Separator, FactorError i e] s))"
  proof (cases "factor_error lib (graph s ! i) (initial s)")
    case (Inl ex)
    then have "body lib i s = (Some ex, s)"
      by (simp add: body_def)
    with l Inl show ?thesis by simp
  next
    case (Inr e)
    with f c have "body lib i s
        = (Some (ValuesKeyDoesNotExist (if initial s k1 = None then k1 else k2)),
           emit [Separator, FactorError i e] s)"
      by (simp add: body_def initial_emit)
    with l Inr show ?thesis by simp
  qed
  with a c show ?thesis by blast
qed

text \<open>
  An instance: the first constraint of \<open>dangling_edge_graph\<close> on \<open>one_vertex\<close>; the
  loop ends with the exception for key 1 after the two lines of factor 0.
\<close>

theorem missing_key_ends_the_pass_witness:
  "initial \<lparr>graph = dangling_edge_graph, initial = one_vertex, cout = []\<rparr>
     (if initial \<lparr>graph = dangling_edge_graph, initial = one_vertex, cout = []\<rparr> 0 = None
      then 0 else 1) = None \<and>
   computeResidual Pose3_identity 0 1
       (initial \<lparr>graph = dangling_edge_graph, initial = one_vertex, cout = []\<rparr>)
     = Inl (ValuesKeyDoesNotExist
         (if initial \<lparr>graph = dangling_edge_graph, initial = one_vertex, cout = []\<rparr> 0 = None
          then 0 else 1)) \<and>
   loop (example_library lenient_error dangling_edge_graph one_vertex) 0
       \<lparr>graph = dangling_edge_graph, initial = one_vertex, cout = []\<rparr>
     = (case factor_error (example_library lenient_error dangling_edge_graph one_vertex)
              (graph \<lparr>graph = dangling_edge_graph, initial = one_vertex, cout = []\<rparr> ! 0)
              (initial \<lparr>graph = dangling_edge_graph, initial = one_vertex, cout = []\<rparr>) of
          Inl ex \<Rightarrow>
            (Some ex, \<lparr>graph = dangling_edge_graph, initial = one_vertex, cout = []\<rparr>)
        | Inr e \<Rightarrow>
            (Some (ValuesKeyDoesNotExist
               (if initial \<lparr>graph = dangling_edge_graph, initial = one_vertex, cout = []\<rparr> 0
                     = None
                then 0 else 1)),
             emit [Separator, FactorError 0 e]
               \<lparr>graph = dangling_edge_graph, initial = one_vertex, cout = []\<rparr>)) \<and>
   loop (example_library lenient_error dangling_edge_graph one_vertex) 0
       \<lparr>graph = dangling_edge_graph, initial = one_vertex, cout = []\<rparr>
     = (Some (ValuesKeyDoesNotExist 1),
        \<lparr>graph = dangling_edge_graph, initial = one_vertex,
           cout = [Separator, FactorError 0 0]\<rparr>)"
proof -
  have h1: "0 < length (graph \<lparr>graph = dangling_edge_graph, initial = one_vertex, cout = []\<rparr>)"
    by (simp add: dangling_edge_graph_def)
  have h2: "graph \<lparr>graph = dangling_edge_graph, initial = one_vertex, cout = []\<rparr> ! 0
              = BetweenFactorPose3 0 1 Pose3_identity ()"
    by (simp add: dangling_edge_graph_def)
  have h3: "initial \<lparr>graph = dangling_edge_graph, initial = one_vertex, cout = []\<rparr> 0 = None \<or>
            initial \<lparr>graph = dangling_edge_graph, initial = one_vertex, cout = []\<rparr> 1 = None"
    by (simp add: one_vertex_def)
  note t = missing_key_ends_the_pass
    [OF h1 h2 h3, of "example_library lenient_error dangling_edge_graph one_vertex"]
  have v: "loop (example_library lenient_error dangling_edge_graph one_vertex) 0
       \<lparr>graph = dangling_edge_graph, initial = one_vertex, cout = []\<rparr>
     = (Some (ValuesKeyDoesNotExist 1),
        \<lparr>graph = dangling_edge_graph, initial = one_vertex,
           cout = [Separator, FactorError 0 0]\<rparr>)"
    using t by (simp add: example_library_def lenient_error_def one_vertex_def emit_def)
  from t v show ?thesis
    by (intro conjI) blast+
qed

text \<open>
  Claim C1 as stated fails. On \<open>dangling_edge_graph\<close> the program ends with the uncaught
  exception: with an \<^verbatim>\<open>error\<close> call that returns, at the lookup of line 35, after the two
  lines of factor 0 and with no line about skipping it and none for factor 1; with an
  \<^verbatim>\<open>error\<close> call that looks the keys up itself, already at line 18, before the loop.
\<close>

theorem missing_key_counterexample:
  "main (example_library lenient_error dangling_edge_graph one_vertex) [''g2o-test'']
     = (Terminated (ValuesKeyDoesNotExist 1), [InitialError 0, Separator, FactorError 0 0]) \<and>
   main (example_library checking_error dangling_edge_graph one_vertex) [''g2o-test'']
     = (Terminated (ValuesKeyDoesNotExist 1), [])"
  by (simp add: main_def example_library_def lenient_error_def checking_error_def
      dangling_edge_graph_def one_vertex_def file_path_def is3D_def loop.simps body_def
      computeResidual_def Values_at_def emit_def Let_def)

text \<open>
  Claim C3, as the code has it. When every factor's \<^verbatim>\<open>error\<close> call returns and both
  keys of every between factor are in the estimate set, the loop runs to completion and
  has visited the indices 0 to size - 1 once each, in order; the factors reported as not a
  \<^verbatim>\<open>BetweenFactor<gtsam::Pose3>\<close> are exactly the factors of another kind, in order, and
  the residuals printed are those of the between factors, in order.
\<close>

theorem every_factor_visited_once_in_order:
  assumes H1: "\<forall>f\<in>set (graph s). \<exists>e. factor_error lib f (initial s) = Inr e"
    and H2: "\<forall>f\<in>set (graph s). is_between f \<longrightarrow>
               key1 f \<in> dom (initial s) \<and> key2 f \<in> dom (initial s)"
  shows "\<exists>ls. loop lib 0 s = (None, emit ls s) \<and>
           visited ls = [0..<length (graph s)] \<and>
           skipped ls = filter (\<lambda>j. \<not> is_between (graph s ! j)) [0..<length (graph s)] \<and>
           evaluated ls = map (\<lambda>f. (key1 f, key2 f)) (filter is_between (graph s))"
  using loop_completes [OF H1 H2, of 0] by simp

text \<open>An instance: a factor of another kind followed by a constraint.\<close>

theorem every_factor_visited_witness:
  "\<exists>ls. loop (example_library lenient_error mixed_graph two_vertices) 0
           \<lparr>graph = mixed_graph, initial = two_vertices, cout = []\<rparr>
         = (None, emit ls \<lparr>graph = mixed_graph, initial = two_vertices, cout = []\<rparr>) \<and>
        visited ls = [0..<length (graph \<lparr>graph = mixed_graph, initial = two_vertices, cout = []\<rparr>)] \<and>
        skipped ls = filter
          (\<lambda>j. \<not> is_between (graph \<lparr>graph = mixed_graph, initial = two_vertices, cout = []\<rparr> ! j))
          [0..<length (graph \<lparr>graph = mixed_graph, initial = two_vertices, cout = []\<rparr>)] \<and>
        evaluated ls = map (\<lambda>f. (key1 f, key2 f))
          (filter is_between (graph \<lparr>graph = mixed_graph, initial = two_vertices, cout = []\<rparr>))"
proof -
  have h1: "\<forall>f\<in>set (graph \<lparr>graph = mixed_graph, initial = two_vertices, cout = []\<rparr>).
      \<exists>e. factor_error (example_library lenient_error mixed_graph two_vertices) f
            (initial \<lparr>graph = mixed_graph, initial = two_vertices, cout = []\<rparr>) = Inr e"
    by (simp add: example_library_def lenient_error_def)
  have h2: "\<forall>f\<in>set (graph \<lparr>graph = mixed_graph, initial = two_vertices, cout = []\<rparr>).
      is_between f \<longrightarrow>
        key1 f \<in> dom (initial \<lparr>graph = mixed_graph, initial = two_vertices, cout = []\<rparr>) \<and>
        key2 f \<in> dom (initial \<lparr>graph = mixed_graph, initial = two_vertices, cout = []\<rparr>)"
    by (simp add: mixed_graph_def two_vertices_def)
  show ?thesis
    by (rule every_factor_visited_once_in_order [OF h1 h2])
qed

text \<open>
  Claim C3 as stated fails for a graph with a constraint on an absent key: on
  \<open>mixed_dangling_graph\<close>, of size 2, the loop ends with the exception in factor 0, so
  factor 1, which is not a between factor, is neither visited nor reported.
\<close>

theorem every_factor_visited_counterexample:
  "fst (loop (example_library lenient_error mixed_dangling_graph one_vertex) 0
         \<lparr>graph = mixed_dangling_graph, initial = one_vertex, cout = []\<rparr>)
     = Some (ValuesKeyDoesNotExist 1) \<and>
   cout (snd (loop (example_library lenient_error mixed_dangling_graph one_vertex) 0
         \<lparr>graph = mixed_dangling_graph, initial = one_vertex, cout = []\<rparr>))
     = [Separator, FactorError 0 0] \<and>
   visited [Separator, FactorError 0 0] = [0] \<and>
   skipped [Separator, FactorError 0 0] = [] \<and>
   length mixed_dangling_graph = 2"
  by (simp add: example_library_def lenient_error_def mixed_dangling_graph_def one_vertex_def
      loop.simps body_def computeResidual_def Values_at_def emit_def Let_def)

section \<open>The command line\<close>

lemma body_readG2o: "body (lib\<lparr>readG2o := r\<rparr>) i s = body lib i s"
  by (simp add: body_def)

lemma loop_readG2o: "loop (lib\<lparr>readG2o := r\<rparr>) i s = loop lib i s"
proof (induction lib i s rule: loop.induct)
  case (1 lib i s)
  show ?case
  proof (cases "i < length (graph s)")
    case False
    then show ?thesis
      by (simp add: loop.simps [of lib i s] loop.simps [of "lib\<lparr>readG2o := r\<rparr>" i s])
  next
    case True
    obtain x s' where b: "body lib i s = (x, s')"
      by (cases "body lib i s")
    show ?thesis
    proof (cases x)
      case (Some ex)
      with True b show ?thesis
        by (simp add: loop.simps [of lib i s] loop.simps [of "lib\<lparr>readG2o := r\<rparr>" i s]
            body_readG2o)
    next
      case None
      from "1.IH" [OF True b [symmetric] None] True b None show ?thesis
        by (simp add: loop.simps [of lib i s] loop.simps [of "lib\<lparr>readG2o := r\<rparr>" i s]
            body_readG2o)
    qed
  qed
qed

lemma main_readG2o:
  assumes "r (file_path argv) is3D = readG2o lib (file_path argv) is3D"
  shows "main (lib\<lparr>readG2o := r\<rparr>) argv = main lib argv"
  using assms
  by (simp add: main_def Let_def loop_readG2o
      split: sum.splits prod.splits option.splits)

text \<open>
  Claim C10. With no command-line argument (\<^verbatim>\<open>argc\<close> at most 1) the path is
  \<^verbatim>\<open>data/2d/2d-1.g2o\<close>; with an argument it is \<^verbatim>\<open>argv[1]\<close> as given. The flag
  \<open>is3D\<close> is true. The loader is called with exactly this path and flag: the program
  behaves the same when the loader is replaced everywhere else, and it ends with the
  loader's exception when the loader raises there.
\<close>

theorem file_path_and_is3D:
  "file_path [] = ''data/2d/2d-1.g2o'' \<and>
   file_path [prog] = ''data/2d/2d-1.g2o'' \<and>
   file_path (prog # arg # rest) = arg \<and>
   is3D = True \<and>
   main lib argv =
     main (lib\<lparr>readG2o := (\<lambda>p b. if p = file_path argv \<and> b = True then readG2o lib p b
                                else Inl (LibraryException ''not called''))\<rparr>) argv \<and>
   main (lib\<lparr>readG2o := (\<lambda>p b. if p = file_path argv \<and> b = True then Inl ex
                                else readG2o lib p b)\<rparr>) argv = (Terminated ex, [])"
proof -
  have p: "file_path [] = ''data/2d/2d-1.g2o''" "file_path [prog] = ''data/2d/2d-1.g2o''"
    "file_path (prog # arg # rest) = arg" "is3D = True"
    by (simp_all add: file_path_def is3D_def)
  have a: "main (lib\<lparr>readG2o := (\<lambda>p b. if p = file_path argv \<and> b = True then Inl ex
                                else readG2o lib p b)\<rparr>) argv = (Terminated ex, [])"
    by (simp add: main_def is3D_def)
  have b: "main (lib\<lparr>readG2o := (\<lambda>p b. if p = file_path argv \<and> b = True then readG2o lib p b
                                else Inl (LibraryException ''not called''))\<rparr>) argv = main lib argv"
    by (rule main_readG2o) (simp add: is3D_def)
  show ?thesis
    by (intro conjI p a b [symmetric])
qed

end
